theory Spec2Isabelle
  imports Main "HOL-Library.Sublist"
begin

section \<open>Python values, exceptions and observable events\<close>

text \<open>
  The command-line front end (\<^verbatim>\<open>agent_auth/cli.py\<close>) and the two example programs are
  embedded function by function. A Python \<^verbatim>\<open>str\<close> is a \<^typ>\<open>string\<close> whose elements
  stand for the code points, so \<^verbatim>\<open>len\<close> is \<^const>\<open>length\<close>. A \<^verbatim>\<open>datetime\<close> is
  an integer number of microseconds since the epoch.
\<close>

type_synonym domain = string
type_synonym timestamp = int

text \<open>
  Dynamically typed values: what \<^verbatim>\<open>json.loads\<close> returns (\<^verbatim>\<open>None\<close>, booleans, integers,
  strings, lists, dictionaries with string keys) and, as \<open>PObj\<close>, an instance with named
  attributes such as the \<^verbatim>\<open>Session\<close> model object.
\<close>

datatype pyval =
    PNone
  | PBool bool
  | PInt int
  | PStr string
  | PList "pyval list"
  | PDict "(string \<times> pyval) list"
  | PObj "(string \<times> pyval) list"

text \<open>
  The exception classes the front end names. A raised exception carries the list of
  classes it is an instance of (its own class and every base class) and its text, so
  \<^verbatim>\<open>except C\<close> is a membership test and the class hierarchy of the modules that are
  not part of the sources is input data.
\<close>

datatype exn_class =
    Exception
  | ValueError
  | JSONDecodeError
  | OverflowError
  | TypeError
  | AttributeError
  | FileNotFoundError
  | VaultError
  | VaultNotInitializedError
  | VaultAuthenticationError
  | AgentError
  | AgentNotFoundError
  | AgentScopeError
  | AgentAuthClientError
  | SessionExpiredError
  | SessionNotFoundError

record exn =
  classes :: "exn_class list"
  message :: string

definition isinstance :: "exn \<Rightarrow> exn_class \<Rightarrow> bool" where
  "isinstance e c = (c \<in> set (classes e))"

text \<open>
  How a command ends: it returns, it raises \<^verbatim>\<open>typer.Exit(code)\<close>, or an exception that
  no handler of the command catches leaves it.
\<close>

datatype outcome = Returned | Exit int | Uncaught exn

text \<open>
  What a command does that can be observed from outside: console output, prompts, and
  the calls it makes into the vault, the identity registry and the client.
\<close>

datatype event =
    Print string
  | PrintTable string "string list" "string list list"
  | PrintPanel string string
  | Getpass string
  | Ask string
  | Call_is_initialized
  | Call_initialize string
  | Call_unlock string
  | Call_store_session domain pyval timestamp
  | Call_list_sessions
  | Call_get_session domain
  | Call_Agent_load string
  | Call_client_get_session domain string
  | HttpGet string pyval

text \<open>
  The \<^verbatim>\<open>Vault\<close> class lives in \<^verbatim>\<open>agent_auth/vault.py\<close>, which is not among the sources.
  The front end is therefore embedded over an arbitrary implementation of the methods it
  calls, each a function on a vault state \<open>'v\<close> that returns the value or the raised
  exception together with the state it leaves.
\<close>

record session =
  sess_domain :: domain
  sess_created_at :: timestamp
  sess_expires_at :: timestamp

record 'v vault_api =
  db_path :: string
  vault_is_initialized :: "'v \<Rightarrow> bool"
  vault_initialize :: "string \<Rightarrow> 'v \<Rightarrow> (exn + unit) \<times> 'v"
  vault_unlock :: "string \<Rightarrow> 'v \<Rightarrow> (exn + unit) \<times> 'v"
  vault_store_session :: "domain \<Rightarrow> pyval \<Rightarrow> timestamp \<Rightarrow> 'v \<Rightarrow> (exn + unit) \<times> 'v"
  vault_list_sessions :: "'v \<Rightarrow> (exn + session list) \<times> 'v"
  vault_get_session :: "domain \<Rightarrow> 'v \<Rightarrow> (exn + pyval) \<times> 'v"

text \<open>
  Library functions the commands call and that are taken as given: \<^verbatim>\<open>json.loads\<close>
  (\<open>Inl\<close> is the text of the \<^verbatim>\<open>JSONDecodeError\<close>), \<^verbatim>\<open>json.dumps(., indent=2)\<close>,
  \<^verbatim>\<open>int\<close> on a string (\<open>None\<close> is its \<^verbatim>\<open>ValueError\<close>), \<^verbatim>\<open>datetime.isoformat\<close> and
  \<^verbatim>\<open>str\<close>.
\<close>

record pylib =
  json_loads :: "string \<Rightarrow> string + pyval"
  json_dumps :: "pyval \<Rightarrow> exn + string"
  py_int :: "string \<Rightarrow> int option"
  isoformat :: "timestamp \<Rightarrow> string"
  py_str :: "pyval \<Rightarrow> string"

section \<open>The \<^verbatim>\<open>init\<close> command\<close>

definition check_mark :: string where
  "check_mark = [CHR 0xE2, CHR 0x9C, CHR 0x93]"

definition msg_location :: "'v vault_api \<Rightarrow> string" where
  "msg_location V = ''[dim]Vault location: '' @ db_path V @ ''[/dim]''"

text \<open>
  \<^verbatim>\<open>init()\<close> of \<^verbatim>\<open>cli.py\<close>. The two arguments \<open>password\<close> and \<open>password_confirm\<close>
  are what the two \<^verbatim>\<open>getpass\<close> prompts return; they are read only where the trace holds
  the \<open>Getpass\<close> events.
\<close>

definition init :: "'v vault_api \<Rightarrow> 'v \<Rightarrow> string \<Rightarrow> string \<Rightarrow> outcome \<times> event list \<times> 'v" where
  "init V v password password_confirm =
    (let t0 = [Print ''[bold blue]Initializing AgentAuth vault...[/bold blue]'',
               Call_is_initialized] in
     if vault_is_initialized V v then
       (Exit 0,
        t0 @ [Print ''[yellow]Vault already initialized[/yellow]'', Print (msg_location V)],
        v)
     else
       let t1 = t0 @ [Getpass ''Enter master password: '',
                      Getpass ''Confirm master password: ''] in
       if password \<noteq> password_confirm then
         (Exit 1, t1 @ [Print ''[bold red]Passwords do not match![/bold red]''], v)
       else if length password < 8 then
         (Exit 1,
          t1 @ [Print ''[bold red]Password must be at least 8 characters![/bold red]''], v)
       else
         (case vault_initialize V password v of
            (Inr _, v') \<Rightarrow>
              (Returned,
               t1 @ [Call_initialize password,
                     Print (''[bold green]'' @ check_mark
                            @ ''[/bold green] Vault initialized successfully!''),
                     Print (msg_location V)],
               v')
          | (Inl e, v') \<Rightarrow>
              if isinstance e VaultError then
                (Exit 1,
                 t1 @ [Call_initialize password,
                       Print (''[bold red]Error:[/bold red] '' @ message e)],
                 v')
              else (Uncaught e, t1 @ [Call_initialize password], v')))"

section \<open>The \<^verbatim>\<open>add\<close> command\<close>

definition msg_not_initialized :: string where
  "msg_not_initialized =
     ''[bold red]Vault is not initialized. Run 'agent-auth init' first.[/bold red]''"

text \<open>
  The two handlers that follow \<^verbatim>\<open>vault.unlock(password)\<close> in \<^verbatim>\<open>add\<close> and in
  \<^verbatim>\<open>list_sessions\<close>: \<^verbatim>\<open>except VaultAuthenticationError\<close>, then \<^verbatim>\<open>except Exception\<close>.
\<close>

definition unlock_failed :: "exn \<Rightarrow> event list \<Rightarrow> outcome \<times> event list" where
  "unlock_failed e t =
    (if isinstance e VaultAuthenticationError then
       (Exit 1, t @ [Print ''[bold red]Incorrect password![/bold red]''])
     else if isinstance e Exception then
       (Exit 1, t @ [Print (''[bold red]Error unlocking vault:[/bold red] '' @ message e)])
     else (Uncaught e, t))"

text \<open>
  \<^verbatim>\<open>datetime.utcnow() + timedelta(days=days_int)\<close>. \<^verbatim>\<open>timedelta\<close> raises
  \<^verbatim>\<open>OverflowError\<close> for more than 999999999 days in either direction, and the sum raises
  it outside the years 1 to 9999. \<open>None\<close> is that error.
\<close>

definition datetime_min :: timestamp where
  "datetime_min = - 62135596800000000"

definition datetime_max :: timestamp where
  "datetime_max = 253402300799999999"

definition utcnow_plus_days :: "timestamp \<Rightarrow> int \<Rightarrow> timestamp option" where
  "utcnow_plus_days now days_int =
    (if \<bar>days_int\<bar> > 999999999 then None
     else let t = now + days_int * 86400000000 in
          if t < datetime_min \<or> datetime_max < t then None else Some t)"

definition overflow_error :: exn where
  "overflow_error = \<lparr> classes = [OverflowError, Exception], message = [] \<rparr>"

definition is_dict :: "pyval \<Rightarrow> bool" where
  "is_dict x = (case x of PDict _ \<Rightarrow> True | _ \<Rightarrow> False)"

text \<open>
  \<^verbatim>\<open>add(domain)\<close> of \<^verbatim>\<open>cli.py\<close>. \<open>password\<close> is what \<^verbatim>\<open>getpass\<close> returns, \<open>cookies_json\<close>
  and \<open>days\<close> what the two \<^verbatim>\<open>Prompt.ask\<close> calls return, \<open>now\<close> the value of
  \<^verbatim>\<open>datetime.utcnow()\<close>. The only check made on the parsed cookies is
  \<^verbatim>\<open>isinstance(cookies, dict)\<close>.
\<close>

definition add ::
  "pylib \<Rightarrow> 'v vault_api \<Rightarrow> 'v \<Rightarrow> timestamp \<Rightarrow> domain \<Rightarrow> string \<Rightarrow> string \<Rightarrow> string
     \<Rightarrow> outcome \<times> event list \<times> 'v" where
  "add L V v now domain password cookies_json days =
    (let t0 = [Print (''[bold blue]Adding session for domain: '' @ domain @ ''[/bold blue]''),
               Call_is_initialized] in
     if \<not> vault_is_initialized V v then (Exit 1, t0 @ [Print msg_not_initialized], v)
     else
       let t1 = t0 @ [Getpass ''Vault password: '', Call_unlock password] in
       case vault_unlock V password v of
         (Inl e, v1) \<Rightarrow> (fst (unlock_failed e t1), snd (unlock_failed e t1), v1)
       | (Inr _, v1) \<Rightarrow>
           let t2 = t1 @ [Print (CHR 0x0A # ''[bold]Enter cookies as JSON:[/bold]''),
                          Print (''[dim]Example: {'' @ [CHR 0x22] @ ''session_id''
                                 @ [CHR 0x22] @ '': '' @ [CHR 0x22] @ ''abc123'' @ [CHR 0x22]
                                 @ '', '' @ [CHR 0x22] @ ''auth_token'' @ [CHR 0x22] @ '': ''
                                 @ [CHR 0x22] @ ''xyz789'' @ [CHR 0x22] @ ''}[/dim]''),
                          Ask ''Cookies JSON''] in
           (case json_loads L cookies_json of
             Inl err \<Rightarrow> (Exit 1, t2 @ [Print (''[bold red]Invalid JSON:[/bold red] '' @ err)], v1)
           | Inr cookies \<Rightarrow>
               if \<not> is_dict cookies then
                 (Exit 1,
                  t2 @ [Print (''[bold red]Error:[/bold red] ''
                               @ ''Cookies must be a JSON object (dictionary)'')],
                  v1)
               else
                 let t3 = t2 @ [Ask ''Expiration (days from now)''] in
                 (case py_int L days of
                   None \<Rightarrow> (Exit 1, t3 @ [Print ''[bold red]Invalid number of days![/bold red]''], v1)
                 | Some days_int \<Rightarrow>
                     (case utcnow_plus_days now days_int of
                        None \<Rightarrow> (Uncaught overflow_error, t3, v1)
                      | Some expires_at \<Rightarrow>
                          let t4 = t3 @ [Call_store_session domain cookies expires_at] in
                          (case vault_store_session V domain cookies expires_at v1 of
                             (Inr _, v2) \<Rightarrow>
                               (Returned,
                                t4 @ [Print (''[bold green]'' @ check_mark
                                             @ ''[/bold green] Session stored successfully!''),
                                      Print (''[dim]Expires: '' @ isoformat L expires_at
                                             @ ''[/dim]'')],
                                v2)
                           | (Inl e, v2) \<Rightarrow>
                               if isinstance e VaultError then
                                 (Exit 1,
                                  t4 @ [Print (''[bold red]Error storing session:[/bold red] ''
                                               @ message e)],
                                  v2)
                               else (Uncaught e, t4, v2))))))"

section \<open>The \<^verbatim>\<open>list_sessions\<close> command\<close>



section \<open>The \<^verbatim>\<open>test_session\<close> command\<close>




section \<open>The example programs\<close>

text \<open>
  Both examples read a session with \<^verbatim>\<open>vault.get_session(domain)\<close> and then take
  \<^verbatim>\<open>session.cookies\<close> when the value has such an attribute and the value itself
  otherwise. A dictionary, like every other built-in value, has no attribute
  \<^verbatim>\<open>cookies\<close>, whatever its keys are.
\<close>

definition session_cookies :: "pyval \<Rightarrow> pyval" where
  "session_cookies session =
    (case session of
       PObj attrs \<Rightarrow> (case map_of attrs ''cookies'' of Some c \<Rightarrow> c | None \<Rightarrow> session)
     | _ \<Rightarrow> session)"

text \<open>\<^verbatim>\<open>str.lower\<close> on the ASCII letters; other characters are left as they are.\<close>

definition lower_char :: "char \<Rightarrow> char" where
  "lower_char c =
    (let n = (of_char c :: nat) in if 65 \<le> n \<and> n \<le> 90 then char_of (n + 32) else c)"

definition str_lower :: "string \<Rightarrow> string" where
  "str_lower s = map lower_char s"

record response =
  status_code :: int
  location :: "string option"

definition url_notifications :: string where
  "url_notifications = ''https://github.com/notifications''"

definition url_stars :: string where
  "url_stars = ''https://github.com/stars''"

text \<open>
  \<^verbatim>\<open>main()\<close> of \<^verbatim>\<open>examples/github_agent.py\<close>. The trace lists the calls into the library
  and the requests sent; the banner and progress lines written with \<^verbatim>\<open>print\<close> are left
  out. \<open>http_get url cookies\<close> is \<^verbatim>\<open>requests.get(url, cookies=cookies, ...)\<close>. The agent
  that \<^verbatim>\<open>Agent.load\<close> returns is used for one progress line only.
\<close>

definition github_agent_main ::
  "(string \<Rightarrow> exn + 'a) \<Rightarrow> 'v vault_api \<Rightarrow> (string \<Rightarrow> pyval \<Rightarrow> exn + response)
     \<Rightarrow> 'v \<Rightarrow> string \<Rightarrow> outcome \<times> event list \<times> 'v" where
  "github_agent_main agent_load V http_get v vault_password =
    (let t0 = [Call_Agent_load ''github-agent''] in
     case agent_load ''github-agent'' of
       Inl e \<Rightarrow>
         if isinstance e FileNotFoundError then (Returned, t0, v) else (Uncaught e, t0, v)
     | Inr agent \<Rightarrow>
         let t1 = t0 @ [Ask ''      Vault password: '', Call_unlock vault_password] in
         (case vault_unlock V vault_password v of
            (Inl e, v1) \<Rightarrow>
              if isinstance e Exception then (Returned, t1, v1) else (Uncaught e, t1, v1)
          | (Inr _, v1) \<Rightarrow>
              let t2 = t1 @ [Call_get_session ''github.com''] in
              (case vault_get_session V ''github.com'' v1 of
                 (Inl e, v2) \<Rightarrow>
                   if isinstance e Exception then (Returned, t2, v2) else (Uncaught e, t2, v2)
               | (Inr session, v2) \<Rightarrow>
                   let cookies = session_cookies session;
                       t3 = t2 @ [HttpGet url_notifications cookies] in
                   (case http_get url_notifications cookies of
                      Inl e \<Rightarrow>
                        if isinstance e Exception then (Returned, t3, v2)
                        else (Uncaught e, t3, v2)
                    | Inr r \<Rightarrow>
                        if status_code r \<noteq> 200
                           \<and> sublist ''login''
                                (str_lower (case location r of Some l \<Rightarrow> l | None \<Rightarrow> []))
                        then (Returned, t3, v2)
                        else
                          let t4 = t3 @ [HttpGet url_stars cookies] in
                          (case http_get url_stars cookies of
                             Inl e \<Rightarrow>
                               if isinstance e Exception then (Returned, t4, v2)
                               else (Uncaught e, t4, v2)
                           | Inr r2 \<Rightarrow> (Returned, t4, v2))))))"

text \<open>
  The quote stripping of \<^verbatim>\<open>get_cookies_for_playwright\<close>: \<^verbatim>\<open>s[1:-1]\<close> when the text starts
  and ends with a double quote, then \<^verbatim>\<open>s[2:-2]\<close> when it starts and ends with a backslash
  followed by a double quote.
\<close>

definition strip_quotes :: "string \<Rightarrow> string" where
  "strip_quotes s =
    (let s1 = (if prefix [CHR 0x22] s \<and> suffix [CHR 0x22] s then butlast (tl s) else s) in
     if prefix [CHR 0x5C, CHR 0x22] s1 \<and> suffix [CHR 0x5C, CHR 0x22] s1
     then take (length s1 - 4) (drop 2 s1) else s1)"

definition playwright_cookie :: "pylib \<Rightarrow> string \<times> pyval \<Rightarrow> pyval" where
  "playwright_cookie L item =
    PDict [(''name'', PStr (fst item)),
           (''value'', PStr (strip_quotes (py_str L (snd item)))),
           (''domain'', PStr ''.github.com''),
           (''path'', PStr ''/'')]"

definition attribute_error :: exn where
  "attribute_error = \<lparr> classes = [AttributeError, Exception], message = [] \<rparr>"

text \<open>
  \<^verbatim>\<open>get_cookies_for_playwright(vault, domain)\<close> of
  \<^verbatim>\<open>examples/browser-use/github_browser_agent.py\<close>. The function takes a vault and a
  domain, and no agent. \<^verbatim>\<open>raw_cookies.items()\<close> is the item list of a dictionary and an
  \<^verbatim>\<open>AttributeError\<close> on any other value.
\<close>

definition get_cookies_for_playwright ::
  "pylib \<Rightarrow> 'v vault_api \<Rightarrow> 'v \<Rightarrow> domain \<Rightarrow> (exn + pyval) \<times> event list \<times> 'v" where
  "get_cookies_for_playwright L V v domain =
    (case vault_get_session V domain v of
       (Inl e, v1) \<Rightarrow> (Inl e, [Call_get_session domain], v1)
     | (Inr session, v1) \<Rightarrow>
         (case session_cookies session of
            PDict items \<Rightarrow>
              (Inr (PList (map (playwright_cookie L) items)), [Call_get_session domain], v1)
          | _ \<Rightarrow> (Inl attribute_error, [Call_get_session domain], v1)))"

section \<open>The core: key derivation, encrypted store, sessions, scopes, disclosure\<close>

text \<open>
  The modules \<^verbatim>\<open>agent_auth/vault.py\<close>, \<^verbatim>\<open>agent_auth/client.py\<close>,
  \<^verbatim>\<open>agent_auth/identity.py\<close> and \<^verbatim>\<open>agent_auth/models.py\<close> are not among the sources. The
  definitions of this section follow the specification's description of them, under the
  specification's component names: \<open>kd\<close> for KeyDerivation, \<open>es\<close> for EncryptedStore,
  \<open>sm\<close> for SessionManager, \<open>ac\<close> for AccessController. Randomness and the clock are
  arguments. Cryptography is symbolic: a derived key is the pair of password and salt it
  was derived from, and a sealed payload opens under the key that sealed it and under no
  other. The payload is the value whose serialized form is encrypted; the core takes it
  as it is handed over, since the specification has the core assume that the front end
  validated it.
\<close>

type_synonym cookies = "(string \<times> string) list"

text \<open>Modelled from the spec: the error kinds of the core (section 7 of the specification;
  \<open>AlreadyInitialized\<close> and \<open>InvalidExpiry\<close> name the two rejections it leaves unnamed).\<close>

datatype error_kind =
    VaultNotInitialized
  | AlreadyInitialized
  | VaultAuthentication
  | VaultIntegrity
  | SessionNotFound
  | SessionExpired
  | AgentNotFound
  | DuplicateAgentName
  | AgentScope
  | InvalidExpiry

text \<open>Modelled from the spec: the key that KeyDerivation derives from a password and a salt,
  and the verifier, a one-way function of the key.\<close>

datatype key = Key string nat

datatype verifier = Verifier key

text \<open>Modelled from the spec: an encrypted payload. \<open>Sealed k n p\<close> is the payload \<open>p\<close>
  encrypted with authentication under key \<open>k\<close> and nonce \<open>n\<close>; \<open>Corrupted bs\<close> is any other
  byte string.\<close>

datatype blob = Sealed key nat pyval | Corrupted "nat list"

text \<open>Modelled from the spec: VaultMetadata; the record exists iff the vault is initialized.\<close>

record vault_metadata =
  salt :: nat
  verifier_of :: verifier

text \<open>Modelled from the spec: SessionRecord, one per normalized domain.\<close>

record session_record =
  ciphertext :: blob
  nonce :: nat
  created_at :: timestamp
  expires_at :: timestamp

text \<open>Modelled from the spec: the persisted vault file, the metadata and the table of
  session records keyed by domain.\<close>

record encrypted_store =
  metadata :: "vault_metadata option"
  records :: "(domain \<times> session_record) list"

text \<open>Modelled from the spec: AgentIdentity.\<close>

record agent_identity =
  agent_id :: nat
  identity_name :: string
  scopes :: "string list"
  agent_created_at :: timestamp

text \<open>Modelled from the spec: the outcome field of an AccessLogEntry.\<close>

datatype access_outcome = Granted | DeniedScope | DeniedExpired | DeniedNotFound | DeniedAuth

text \<open>Modelled from the spec: AccessLogEntry.\<close>

record access_log_entry =
  log_agent_id :: nat
  log_domain :: domain
  log_timestamp :: timestamp
  log_outcome :: access_outcome

text \<open>Modelled from the spec: \<open>KeyDerivation.initialize(password)\<close> of the missing
  \<^verbatim>\<open>agent_auth/vault.py\<close>, with the fresh salt as
  an argument.\<close>

definition kd_initialize :: "string \<Rightarrow> nat \<Rightarrow> nat \<times> verifier \<times> key" where
  "kd_initialize password fresh_salt =
     (fresh_salt, Verifier (Key password fresh_salt), Key password fresh_salt)"

text \<open>Modelled from the spec: \<open>KeyDerivation.unlock(password, salt, verifier)\<close> of the missing
  \<^verbatim>\<open>agent_auth/vault.py\<close> derives the
  key again and compares its verifier with the stored one.\<close>

definition kd_unlock :: "string \<Rightarrow> nat \<Rightarrow> verifier \<Rightarrow> error_kind + key" where
  "kd_unlock password s ver =
     (if Verifier (Key password s) = ver then Inr (Key password s) else Inl VaultAuthentication)"

text \<open>Modelled from the spec: \<open>EncryptedStore.is_initialized()\<close> of the missing
  \<^verbatim>\<open>agent_auth/vault.py\<close>.\<close>

definition es_is_initialized :: "encrypted_store \<Rightarrow> bool" where
  "es_is_initialized st = (metadata st \<noteq> None)"

text \<open>Modelled from the spec: \<open>EncryptedStore.initialize(password)\<close> of the missing
  \<^verbatim>\<open>agent_auth/vault.py\<close> fails on an initialized
  vault, otherwise persists salt and verifier and keeps no key.\<close>

definition es_initialize :: "string \<Rightarrow> nat \<Rightarrow> encrypted_store \<Rightarrow> error_kind + encrypted_store" where
  "es_initialize password fresh_salt st =
     (if es_is_initialized st then Inl AlreadyInitialized
      else case kd_initialize password fresh_salt of
             (s, ver, k) \<Rightarrow> Inr (st\<lparr>metadata := Some \<lparr>salt = s, verifier_of = ver\<rparr>\<rparr>))"

text \<open>Modelled from the spec: \<open>EncryptedStore.unlock(password)\<close> of the missing
  \<^verbatim>\<open>agent_auth/vault.py\<close>; the handle is the key.\<close>

definition es_unlock :: "string \<Rightarrow> encrypted_store \<Rightarrow> error_kind + key" where
  "es_unlock password st =
     (case metadata st of
        None \<Rightarrow> Inl VaultNotInitialized
      | Some m \<Rightarrow> kd_unlock password (salt m) (verifier_of m))"

text \<open>Modelled from the spec: domains are normalized to lower case.\<close>

definition normalize_domain :: "domain \<Rightarrow> domain" where
  "normalize_domain d = str_lower d"

text \<open>Modelled from the spec: a flat cookie mapping, string keys to string values, as the
  dictionary the callers hand over and receive.\<close>

definition py_of_cookies :: "cookies \<Rightarrow> pyval" where
  "py_of_cookies m = PDict (map (\<lambda>kv. (fst kv, PStr (snd kv))) m)"

text \<open>Modelled from the spec: authenticated decryption; it fails on tampered data and
  under another key.\<close>

definition open_blob :: "key \<Rightarrow> blob \<Rightarrow> pyval option" where
  "open_blob k b =
     (case b of Sealed k' n p \<Rightarrow> if k' = k then Some p else None | Corrupted _ \<Rightarrow> None)"

text \<open>Modelled from the spec: the upsert of a record under its key; a later write replaces
  the earlier record of the same domain.\<close>

fun upsert :: "domain \<Rightarrow> session_record \<Rightarrow> (domain \<times> session_record) list
                \<Rightarrow> (domain \<times> session_record) list" where
  "upsert d r [] = [(d, r)]"
| "upsert d r ((d', r') # rs) = (if d' = d then (d, r) # rs else (d', r') # upsert d r rs)"

text \<open>Modelled from the spec: \<open>EncryptedStore.put(domain, plaintext_cookies)\<close> of the missing
  \<^verbatim>\<open>agent_auth/vault.py\<close>, with the
  fresh nonce and the two timestamps of the record as arguments.\<close>

definition es_put ::
  "key \<Rightarrow> domain \<Rightarrow> pyval \<Rightarrow> nat \<Rightarrow> timestamp \<Rightarrow> timestamp \<Rightarrow> encrypted_store
     \<Rightarrow> encrypted_store" where
  "es_put h d m fresh_nonce created expires st =
     st\<lparr>records :=
          upsert (normalize_domain d)
            \<lparr>ciphertext = Sealed h fresh_nonce m, nonce = fresh_nonce,
             created_at = created, expires_at = expires\<rparr>
            (records st)\<rparr>"

text \<open>Modelled from the spec: \<open>EncryptedStore.get(domain)\<close> of the missing
  \<^verbatim>\<open>agent_auth/vault.py\<close>.\<close>

definition es_get :: "key \<Rightarrow> domain \<Rightarrow> encrypted_store \<Rightarrow> error_kind + pyval" where
  "es_get h d st =
     (case map_of (records st) (normalize_domain d) of
        None \<Rightarrow> Inl SessionNotFound
      | Some r \<Rightarrow>
          (case open_blob h (ciphertext r) of
             None \<Rightarrow> Inl VaultIntegrity
           | Some m \<Rightarrow> Inr m))"

text \<open>Modelled from the spec: \<open>EncryptedStore.list()\<close> of the missing
  \<^verbatim>\<open>agent_auth/vault.py\<close> reads the domain and the two
  timestamps of every record, and neither the key nor a payload.\<close>

definition es_list :: "encrypted_store \<Rightarrow> session list" where
  "es_list st =
     map (\<lambda>dr. \<lparr>sess_domain = fst dr, sess_created_at = created_at (snd dr),
                sess_expires_at = expires_at (snd dr)\<rparr>)
       (records st)"

text \<open>Modelled from the spec: \<open>SessionManager.store(domain, cookies, expires_at)\<close> of the missing
  \<^verbatim>\<open>agent_auth/vault.py\<close> rejects
  an expiry that is not strictly after the creation time \<open>now\<close>.\<close>

definition sm_store ::
  "key \<Rightarrow> domain \<Rightarrow> pyval \<Rightarrow> timestamp \<Rightarrow> timestamp \<Rightarrow> nat \<Rightarrow> encrypted_store
     \<Rightarrow> error_kind + encrypted_store" where
  "sm_store h d m expires now fresh_nonce st =
     (if expires \<le> now then Inl InvalidExpiry
      else Inr (es_put h d m fresh_nonce now expires st))"

text \<open>Modelled from the spec: \<open>SessionManager.fetch(domain)\<close> of the missing
  \<^verbatim>\<open>agent_auth/vault.py\<close> delegates to
  \<open>EncryptedStore.get\<close> and, when that succeeds, fails with SessionExpired if the record's
  expiry is at or before the read time \<open>now\<close>.\<close>

definition sm_fetch :: "key \<Rightarrow> domain \<Rightarrow> timestamp \<Rightarrow> encrypted_store \<Rightarrow> error_kind + pyval" where
  "sm_fetch h d now st =
     (case es_get h d st of
        Inl e \<Rightarrow> Inl e
      | Inr m \<Rightarrow>
          (case map_of (records st) (normalize_domain d) of
             None \<Rightarrow> Inl SessionNotFound
           | Some r \<Rightarrow> if expires_at r \<le> now then Inl SessionExpired else Inr m))"

text \<open>Modelled from the spec: the scope matching rule of section 4.4, which the missing
  \<^verbatim>\<open>agent_auth/identity.py\<close> implements. A scope permits the
  domain equal to it; a scope that begins with the wildcard marker \<open>*\<close> permits every
  domain that ends with the rest of the scope.\<close>

definition scope_permits :: "string \<Rightarrow> domain \<Rightarrow> bool" where
  "scope_permits s d =
     (s = d \<or> (case s of [] \<Rightarrow> False | c # rest \<Rightarrow> c = CHR ''*'' \<and> suffix rest d))"

text \<open>Modelled from the spec: a domain is permitted under a scope set when one of its
  entries permits it.\<close>

definition permitted :: "string list \<Rightarrow> domain \<Rightarrow> bool" where
  "permitted ss d = list_ex (\<lambda>s. scope_permits s d) ss"

text \<open>Modelled from the spec: what \<open>AccessController.get_session\<close> does, step by step.\<close>

datatype core_event = Ev_scope_check | Ev_unlock | Ev_fetch | Ev_audit access_outcome

text \<open>Modelled from the spec: the audit outcome of a failed unlock or fetch. The
  specification names an outcome for four failures and none for a payload that fails
  authentication, which writes no entry here.\<close>

definition outcome_of_error :: "error_kind \<Rightarrow> access_outcome option" where
  "outcome_of_error e =
     (if e = SessionNotFound then Some DeniedNotFound
      else if e = SessionExpired then Some DeniedExpired
      else if e = VaultAuthentication \<or> e = VaultNotInitialized then Some DeniedAuth
      else None)"

text \<open>Modelled from the spec: one audit write, an entry appended to the log.\<close>

definition audit ::
  "agent_identity \<Rightarrow> domain \<Rightarrow> timestamp \<Rightarrow> access_outcome option \<Rightarrow> access_log_entry list
     \<Rightarrow> core_event list \<times> access_log_entry list" where
  "audit a d now oc log =
     (case oc of
        None \<Rightarrow> ([], log)
      | Some r \<Rightarrow>
          ([Ev_audit r],
           log @ [\<lparr>log_agent_id = agent_id a, log_domain = d, log_timestamp = now,
                   log_outcome = r\<rparr>]))"

text \<open>Modelled from the spec: \<open>AccessController.get_session(agent, domain, password)\<close>
  (\<^verbatim>\<open>AgentAuthClient.get_session\<close> of the missing \<^verbatim>\<open>agent_auth/client.py\<close>): the scope check, then the
  unlock, then the fetch, each failure ending the call, and one audit entry. The result
  comes with the steps taken and the audit log.\<close>

definition ac_get_session ::
  "agent_identity \<Rightarrow> domain \<Rightarrow> string \<Rightarrow> timestamp \<Rightarrow> encrypted_store \<Rightarrow> access_log_entry list
     \<Rightarrow> (error_kind + pyval) \<times> core_event list \<times> access_log_entry list" where
  "ac_get_session a d password now st log =
     (if \<not> permitted (scopes a) d then
        (Inl AgentScope,
         [Ev_scope_check] @ fst (audit a d now (Some DeniedScope) log),
         snd (audit a d now (Some DeniedScope) log))
      else
        case es_unlock password st of
          Inl e \<Rightarrow>
            (Inl e,
             [Ev_scope_check, Ev_unlock] @ fst (audit a d now (outcome_of_error e) log),
             snd (audit a d now (outcome_of_error e) log))
        | Inr h \<Rightarrow>
            (case sm_fetch h d now st of
               Inl e \<Rightarrow>
                 (Inl e,
                  [Ev_scope_check, Ev_unlock, Ev_fetch]
                    @ fst (audit a d now (outcome_of_error e) log),
                  snd (audit a d now (outcome_of_error e) log))
             | Inr m \<Rightarrow>
                 (Inr m,
                  [Ev_scope_check, Ev_unlock, Ev_fetch]
                    @ fst (audit a d now (Some Granted) log),
                  snd (audit a d now (Some Granted) log))))"

section \<open>The core behind the front end's interface\<close>

text \<open>Modelled from the spec: the exception a core error kind reaches the front end as. The
  class lists follow the names the front end imports: a session error is a client error,
  a scope error an agent error, a vault error a \<^verbatim>\<open>VaultError\<close>.\<close>

definition exn_of :: "error_kind \<Rightarrow> exn" where
  "exn_of e =
     (if e = VaultNotInitialized then
        \<lparr>classes = [VaultNotInitializedError, VaultError, Exception],
         message = ''vault is not initialized''\<rparr>
      else if e = VaultAuthentication then
        \<lparr>classes = [VaultAuthenticationError, VaultError, Exception],
         message = ''wrong password''\<rparr>
      else if e = SessionNotFound then
        \<lparr>classes = [SessionNotFoundError, AgentAuthClientError, Exception],
         message = ''no session for the domain''\<rparr>
      else if e = SessionExpired then
        \<lparr>classes = [SessionExpiredError, AgentAuthClientError, Exception],
         message = ''the session has expired''\<rparr>
      else if e = AgentScope then
        \<lparr>classes = [AgentScopeError, AgentError, Exception],
         message = ''domain outside the scopes of the agent''\<rparr>
      else if e = AgentNotFound then
        \<lparr>classes = [AgentNotFoundError, AgentError, Exception], message = ''no such agent''\<rparr>
      else if e = DuplicateAgentName then
        \<lparr>classes = [AgentError, Exception], message = ''agent name already registered''\<rparr>
      else \<lparr>classes = [VaultError, Exception], message = ''vault error''\<rparr>)"

text \<open>Modelled from the spec: the state a \<^verbatim>\<open>Vault\<close> object works on, the vault file, the
  key held while the vault is unlocked (the ambient unlocked state of the original
  design, section 9), the audit log, the clock and the next fresh random value.\<close>

record vstate =
  vs_store :: encrypted_store
  vs_handle :: "key option"
  vs_log :: "access_log_entry list"
  vs_now :: timestamp
  vs_fresh :: nat

definition vault_locked :: exn where
  "vault_locked = \<lparr>classes = [VaultError, Exception], message = ''vault is locked''\<rparr>"

text \<open>Modelled from the spec: the methods of \<^verbatim>\<open>Vault\<close> that the front end and the
  examples call, each the core operation of that name on the state above.\<close>

definition spec_vault :: "vstate vault_api" where
  "spec_vault =
    \<lparr> db_path = ''vault.db'',
      vault_is_initialized = (\<lambda>v. es_is_initialized (vs_store v)),
      vault_initialize = (\<lambda>p v.
        case es_initialize p (vs_fresh v) (vs_store v) of
          Inl e \<Rightarrow> (Inl (exn_of e), v)
        | Inr st \<Rightarrow> (Inr (), v\<lparr>vs_store := st, vs_fresh := Suc (vs_fresh v)\<rparr>)),
      vault_unlock = (\<lambda>p v.
        case es_unlock p (vs_store v) of
          Inl e \<Rightarrow> (Inl (exn_of e), v)
        | Inr h \<Rightarrow> (Inr (), v\<lparr>vs_handle := Some h\<rparr>)),
      vault_store_session = (\<lambda>d c t v.
        case vs_handle v of
          None \<Rightarrow> (Inl vault_locked, v)
        | Some h \<Rightarrow>
            (case sm_store h d c t (vs_now v) (vs_fresh v) (vs_store v) of
               Inl e \<Rightarrow> (Inl (exn_of e), v)
             | Inr st \<Rightarrow> (Inr (), v\<lparr>vs_store := st, vs_fresh := Suc (vs_fresh v)\<rparr>))),
      vault_list_sessions = (\<lambda>v. (Inr (es_list (vs_store v)), v)),
      vault_get_session = (\<lambda>d v.
        case vs_handle v of
          None \<Rightarrow> (Inl vault_locked, v)
        | Some h \<Rightarrow>
            (case sm_fetch h d (vs_now v) (vs_store v) of
               Inl e \<Rightarrow> (Inl (exn_of e), v)
             | Inr m \<Rightarrow> (Inr m, v))) \<rparr>"


section \<open>Concrete inputs\<close>

text \<open>
  Stand-ins for the library functions, an agent whose only scope is \<^verbatim>\<open>linkedin.com\<close>, an
  empty vault file, and a vault initialized with the master password \<^verbatim>\<open>Sup3rSecret!\<close>
  that holds one session for \<^verbatim>\<open>github.com\<close>, read at time 100.
\<close>

definition payload_text :: string where
  "payload_text = ''{'' @ [CHR 0x22] @ ''n'' @ [CHR 0x22] @ '': 1}''"

definition demo_lib :: pylib where
  "demo_lib =
    \<lparr> json_loads = (\<lambda>s.
        if s = ''{}'' then Inr (PDict [])
        else if s = payload_text then Inr (PDict [(''n'', PInt 1)])
        else if s = ''[]'' then Inr (PList [])
        else Inl ''Expecting value''),
      json_dumps = (\<lambda>x. Inr ''{...}''),
      py_int = (\<lambda>s. if s = ''30'' then Some 30 else if s = ''0'' then Some 0 else None),
      isoformat = (\<lambda>t. ''T''),
      py_str = (\<lambda>x. case x of PStr s \<Rightarrow> s | _ \<Rightarrow> ''?'') \<rparr>"

definition demo_agent :: agent_identity where
  "demo_agent =
    \<lparr>agent_id = 1, identity_name = ''github-agent'', scopes = [''linkedin.com''],
     agent_created_at = 0\<rparr>"

definition github_agent :: agent_identity where
  "github_agent =
    \<lparr>agent_id = 2, identity_name = ''github-agent'', scopes = [''github.com''],
     agent_created_at = 0\<rparr>"

definition demo_load :: "string \<Rightarrow> exn + agent_identity" where
  "demo_load name = (if name = ''github-agent'' then Inr demo_agent else Inl (exn_of AgentNotFound))"

definition demo_cookies :: cookies where
  "demo_cookies = [(''session_id'', ''abc123'')]"

definition empty_vault :: vstate where
  "empty_vault =
    \<lparr>vs_store = \<lparr>metadata = None, records = []\<rparr>, vs_handle = None, vs_log = [],
     vs_now = 100, vs_fresh = 7\<rparr>"

definition demo_key :: key where
  "demo_key = Key ''Sup3rSecret!'' 7"

definition demo_vault :: vstate where
  "demo_vault =
    \<lparr>vs_store =
       \<lparr>metadata = Some \<lparr>salt = 7, verifier_of = Verifier demo_key\<rparr>,
        records = [(''github.com'',
                    \<lparr>ciphertext = Sealed demo_key 8 (py_of_cookies demo_cookies), nonce = 8,
                     created_at = 50, expires_at = 1000\<rparr>)]\<rparr>,
     vs_handle = None, vs_log = [], vs_now = 100, vs_fresh = 9\<rparr>"

definition demo_http :: "string \<Rightarrow> pyval \<Rightarrow> exn + response" where
  "demo_http url c = Inr \<lparr>status_code = 200, location = None\<rparr>"

section \<open>Properties of the \<^verbatim>\<open>init\<close> command\<close>

text \<open>
  Claim C9. The \<^verbatim>\<open>init\<close> command calls \<^verbatim>\<open>Vault.initialize\<close> only when the entered
  password equals its confirmation and has at least 8 characters, and then with that
  password. When the vault is not yet initialized and the two entries differ or the
  password is shorter than 8 characters, the command exits with status 1, makes no call
  of \<^verbatim>\<open>Vault.initialize\<close> and leaves the vault as it was.
\<close>

theorem init_initialize_only_for_valid_password:
  "(Call_initialize p \<in> set (fst (snd (init V v password password_confirm)))
      \<longrightarrow> password = password_confirm \<and> 8 \<le> length password \<and> p = password)
   \<and> (\<not> vault_is_initialized V v \<and> (password \<noteq> password_confirm \<or> length password < 8)
      \<longrightarrow> fst (init V v password password_confirm) = Exit 1
          \<and> snd (snd (init V v password password_confirm)) = v
          \<and> (\<forall>q. Call_initialize q \<notin> set (fst (snd (init V v password password_confirm)))))"
  by (auto simp: init_def Let_def split: prod.splits sum.splits)

theorem init_initialize_only_for_valid_password_witness:
  "\<not> vault_is_initialized spec_vault empty_vault \<and> length ''short'' < 8
   \<and> fst (init spec_vault empty_vault ''short'' ''short'') = Exit 1
   \<and> snd (snd (init spec_vault empty_vault ''short'' ''short'')) = empty_vault
   \<and> ''Sup3rSecret!'' \<noteq> ''Sup3rSecret?''
   \<and> fst (init spec_vault empty_vault ''Sup3rSecret!'' ''Sup3rSecret?'') = Exit 1
   \<and> snd (snd (init spec_vault empty_vault ''Sup3rSecret!'' ''Sup3rSecret?'')) = empty_vault"
  using init_initialize_only_for_valid_password
          [of _ spec_vault empty_vault "''short''" "''short''"]
        init_initialize_only_for_valid_password
          [of _ spec_vault empty_vault "''Sup3rSecret!''" "''Sup3rSecret?''"]
  by (simp add: spec_vault_def empty_vault_def es_is_initialized_def)

text \<open>
  Claim C10. On an initialized vault the \<^verbatim>\<open>init\<close> command exits with status 0 after
  two lines of output: it prompts for no password, does not call \<^verbatim>\<open>Vault.initialize\<close>
  and leaves the vault as it was.
\<close>

theorem init_on_initialized_vault:
  "vault_is_initialized V v \<Longrightarrow>
     init V v password password_confirm =
       (Exit 0,
        [Print ''[bold blue]Initializing AgentAuth vault...[/bold blue]'',
         Call_is_initialized,
         Print ''[yellow]Vault already initialized[/yellow]'',
         Print (msg_location V)],
        v)
     \<and> (\<forall>s. Getpass s \<notin> set (fst (snd (init V v password password_confirm))))
     \<and> (\<forall>p. Call_initialize p \<notin> set (fst (snd (init V v password password_confirm))))"
  by (simp add: init_def)

theorem init_on_initialized_vault_witness:
  "vault_is_initialized spec_vault demo_vault
   \<and> fst (init spec_vault demo_vault ''Sup3rSecret!'' ''Sup3rSecret!'') = Exit 0
   \<and> snd (snd (init spec_vault demo_vault ''Sup3rSecret!'' ''Sup3rSecret!'')) = demo_vault"
proof -
  have h: "vault_is_initialized spec_vault demo_vault"
    by (simp add: spec_vault_def demo_vault_def es_is_initialized_def)
  from init_on_initialized_vault [OF h, of "''Sup3rSecret!''" "''Sup3rSecret!''"] h
  show ?thesis by simp
qed

section \<open>Properties of the \<^verbatim>\<open>add\<close> command\<close>





section \<open>Properties of the \<^verbatim>\<open>list_sessions\<close> command\<close>


text \<open>
  The listing of the core as the specification describes it does not depend on the
  payloads: replacing the ciphertext of every record by anything at all leaves it
  unchanged.
\<close>

lemma es_list_ignores_ciphertext:
  "es_list (st\<lparr>records := map (\<lambda>dr. (fst dr, (snd dr)\<lparr>ciphertext := f dr\<rparr>)) (records st)\<rparr>)
     = es_list st"
  by (simp add: es_list_def comp_def)




section \<open>Properties of the \<^verbatim>\<open>test_session\<close> command\<close>




section \<open>Properties of the example programs\<close>

text \<open>
  Claim C1 as stated fails on the two example programs. The agent that
  \<^verbatim>\<open>github_agent.py\<close> loads has the single scope \<^verbatim>\<open>linkedin.com\<close>, which does not permit
  \<^verbatim>\<open>github.com\<close>; the program nevertheless reads the decrypted \<^verbatim>\<open>github.com\<close> cookies
  with \<^verbatim>\<open>Vault.get_session\<close> and sends them with two requests.
  \<^verbatim>\<open>get_cookies_for_playwright\<close> returns the decrypted cookies of an unlocked vault to
  its caller and is given no agent.
\<close>

theorem examples_disclose_without_scope_check:
  "demo_load ''github-agent'' = Inr demo_agent
   \<and> \<not> permitted (scopes demo_agent) ''github.com''
   \<and> github_agent_main demo_load spec_vault demo_http demo_vault ''Sup3rSecret!''
      = (Returned,
         [Call_Agent_load ''github-agent'', Ask ''      Vault password: '',
          Call_unlock ''Sup3rSecret!'', Call_get_session ''github.com'',
          HttpGet ''https://github.com/notifications'' (PDict [(''session_id'', PStr ''abc123'')]),
          HttpGet ''https://github.com/stars'' (PDict [(''session_id'', PStr ''abc123'')])],
         demo_vault\<lparr>vs_handle := Some demo_key\<rparr>)
   \<and> get_cookies_for_playwright demo_lib spec_vault (demo_vault\<lparr>vs_handle := Some demo_key\<rparr>)
        ''github.com''
      = (Inr (PList [PDict [(''name'', PStr ''session_id''), (''value'', PStr ''abc123''),
                            (''domain'', PStr ''.github.com''), (''path'', PStr ''/'')]]),
         [Call_get_session ''github.com''],
         demo_vault\<lparr>vs_handle := Some demo_key\<rparr>)"
  by (simp add: github_agent_main_def get_cookies_for_playwright_def demo_load_def demo_agent_def
        spec_vault_def demo_vault_def demo_http_def demo_lib_def demo_cookies_def demo_key_def
        permitted_def scope_permits_def es_unlock_def kd_unlock_def sm_fetch_def es_get_def
        open_blob_def normalize_domain_def str_lower_def lower_char_def py_of_cookies_def
        session_cookies_def url_notifications_def url_stars_def playwright_cookie_def
        strip_quotes_def Let_def)

text \<open>
  Claim C1, amended. The example programs read credentials through \<^verbatim>\<open>Vault.unlock\<close> and
  \<^verbatim>\<open>Vault.get_session\<close>, not through the client, and what they disclose is decided by
  the vault alone. \<^verbatim>\<open>github_agent.py\<close> sends cookies with a request only when
  \<^verbatim>\<open>Agent.load\<close>, \<^verbatim>\<open>Vault.unlock\<close> and \<^verbatim>\<open>Vault.get_session\<close> succeeded, and then the
  cookies of the session read; when the three succeed it sends them; and its run is the
  same whichever agent, with whichever scopes, was loaded. \<^verbatim>\<open>get_cookies_for_playwright\<close>
  returns one cookie per item of the mapping that \<^verbatim>\<open>Vault.get_session\<close> returns.
\<close>

theorem examples_disclosure_decided_by_vault:
  "(HttpGet url c \<in> set (fst (snd (github_agent_main agent_load V http_get v pw)))
      \<longrightarrow> (\<exists>a u v1 s v2. agent_load ''github-agent'' = Inr a
              \<and> vault_unlock V pw v = (Inr u, v1)
              \<and> vault_get_session V ''github.com'' v1 = (Inr s, v2)
              \<and> c = session_cookies s))
   \<and> (agent_load ''github-agent'' = Inr a \<and> vault_unlock V pw v = (Inr u, v1)
       \<and> vault_get_session V ''github.com'' v1 = (Inr s, v2)
      \<longrightarrow> HttpGet url_notifications (session_cookies s)
            \<in> set (fst (snd (github_agent_main agent_load V http_get v pw))))
   \<and> (agent_load ''github-agent'' = Inr a \<and> agent_load' ''github-agent'' = Inr a'
      \<longrightarrow> github_agent_main agent_load V http_get v pw
          = github_agent_main agent_load' V http_get v pw)
   \<and> (vault_get_session V d v = (Inr (PDict items), v1)
      \<longrightarrow> get_cookies_for_playwright L V v d
          = (Inr (PList (map (playwright_cookie L) items)), [Call_get_session d], v1))"
  by (auto simp: github_agent_main_def get_cookies_for_playwright_def session_cookies_def Let_def
           split: prod.splits sum.splits if_splits)

theorem examples_disclosure_decided_by_vault_witness:
  "demo_load ''github-agent'' = Inr demo_agent
   \<and> vault_unlock spec_vault ''Sup3rSecret!'' demo_vault
       = (Inr (), demo_vault\<lparr>vs_handle := Some demo_key\<rparr>)
   \<and> vault_get_session spec_vault ''github.com'' (demo_vault\<lparr>vs_handle := Some demo_key\<rparr>)
       = (Inr (py_of_cookies demo_cookies), demo_vault\<lparr>vs_handle := Some demo_key\<rparr>)
   \<and> HttpGet url_notifications (session_cookies (py_of_cookies demo_cookies))
        \<in> set (fst (snd (github_agent_main demo_load spec_vault demo_http demo_vault
                           ''Sup3rSecret!'')))
   \<and> github_agent_main demo_load spec_vault demo_http demo_vault ''Sup3rSecret!''
       = github_agent_main (\<lambda>n. Inr github_agent) spec_vault demo_http demo_vault ''Sup3rSecret!''"
proof -
  have l: "demo_load ''github-agent'' = Inr demo_agent"
    by (simp add: demo_load_def)
  have u: "vault_unlock spec_vault ''Sup3rSecret!'' demo_vault
             = (Inr (), demo_vault\<lparr>vs_handle := Some demo_key\<rparr>)"
    by (simp add: spec_vault_def demo_vault_def demo_key_def es_unlock_def kd_unlock_def)
  have g: "vault_get_session spec_vault ''github.com'' (demo_vault\<lparr>vs_handle := Some demo_key\<rparr>)
             = (Inr (py_of_cookies demo_cookies), demo_vault\<lparr>vs_handle := Some demo_key\<rparr>)"
    by (simp add: spec_vault_def demo_vault_def demo_key_def sm_fetch_def es_get_def
          open_blob_def normalize_domain_def str_lower_def lower_char_def)
  note T = examples_disclosure_decided_by_vault
             [where agent_load = demo_load and V = spec_vault and http_get = demo_http
                and v = demo_vault and pw = "''Sup3rSecret!''" and a = demo_agent and u = "()"
                and ?v1.0 = "demo_vault\<lparr>vs_handle := Some demo_key\<rparr>"
                and s = "py_of_cookies demo_cookies"
                and ?v2.0 = "demo_vault\<lparr>vs_handle := Some demo_key\<rparr>"
                and agent_load' = "\<lambda>n. Inr github_agent" and a' = github_agent]
  have d: "HttpGet url_notifications (session_cookies (py_of_cookies demo_cookies))
             \<in> set (fst (snd (github_agent_main demo_load spec_vault demo_http demo_vault
                                ''Sup3rSecret!'')))"
    using T [THEN conjunct2, THEN conjunct1] l u g by simp
  have i: "github_agent_main demo_load spec_vault demo_http demo_vault ''Sup3rSecret!''
             = github_agent_main (\<lambda>n. Inr github_agent) spec_vault demo_http demo_vault
                 ''Sup3rSecret!''"
    using T [THEN conjunct2, THEN conjunct2, THEN conjunct1] l by simp
  from l u g d i show ?thesis by simp
qed

section \<open>Properties of the core as the specification describes it\<close>

lemma map_of_upsert:
  "map_of (upsert d r rs) d' = (if d' = d then Some r else map_of rs d')"
  by (induction rs) auto

lemma es_get_after_put:
  "es_get h d (es_put h d m n created expires st) = Inr m"
  by (simp add: es_get_def es_put_def map_of_upsert open_blob_def)

lemma sm_fetch_after_put:
  "now' < expires \<Longrightarrow> sm_fetch h d now' (es_put h d m n created expires st) = Inr m"
  by (simp add: sm_fetch_def es_get_after_put) (simp add: es_put_def map_of_upsert)

lemma sm_fetch_after_put_expired:
  "expires \<le> now' \<Longrightarrow> sm_fetch h d now' (es_put h d m n created expires st) = Inl SessionExpired"
  by (simp add: sm_fetch_def es_get_after_put) (simp add: es_put_def map_of_upsert)

lemma py_of_cookies_inj: "py_of_cookies m = py_of_cookies m' \<Longrightarrow> m = m'"
  unfolding py_of_cookies_def
  by (induction m arbitrary: m') (auto simp: prod_eq_iff)

lemma scope_rule_examples:
  "permitted [''*.example.com''] ''mail.example.com''"
  "\<not> permitted [''example.com''] ''mail.example.com''"
  "permitted [''linkedin.com''] ''linkedin.com''"
  by (simp_all add: permitted_def scope_permits_def suffix_def)

text \<open>
  Claim C2. When the domain is not permitted under the agent's scopes, \<open>get_session\<close>
  fails with the scope error after the scope check and one audit entry of outcome
  denied-scope: it attempts no unlock and no fetch, so no key is derived and nothing is
  decrypted, and the result is the same for every password and every vault.
\<close>

theorem scope_denial_precedes_unlock:
  "\<not> permitted (scopes a) d \<Longrightarrow>
     ac_get_session a d password now st log =
       (Inl AgentScope,
        [Ev_scope_check, Ev_audit DeniedScope],
        log @ [\<lparr>log_agent_id = agent_id a, log_domain = d, log_timestamp = now,
                 log_outcome = DeniedScope\<rparr>])
     \<and> Ev_unlock \<notin> set (fst (snd (ac_get_session a d password now st log)))
     \<and> Ev_fetch \<notin> set (fst (snd (ac_get_session a d password now st log)))"
  by (simp add: ac_get_session_def audit_def)

theorem scope_denial_precedes_unlock_witness:
  "\<not> permitted (scopes demo_agent) ''twitter.com''
   \<and> es_unlock ''wrong-password'' (vs_store demo_vault) = Inl VaultAuthentication
   \<and> ac_get_session demo_agent ''twitter.com'' ''wrong-password'' 100 (vs_store demo_vault) []
       = (Inl AgentScope,
          [Ev_scope_check, Ev_audit DeniedScope],
          [\<lparr>log_agent_id = 1, log_domain = ''twitter.com'', log_timestamp = 100,
            log_outcome = DeniedScope\<rparr>])"
proof -
  have h: "\<not> permitted (scopes demo_agent) ''twitter.com''"
    by (simp add: demo_agent_def permitted_def scope_permits_def)
  have u: "es_unlock ''wrong-password'' (vs_store demo_vault) = Inl VaultAuthentication"
    by (simp add: demo_vault_def es_unlock_def kd_unlock_def demo_key_def)
  from scope_denial_precedes_unlock
         [OF h, of "''wrong-password''" 100 "vs_store demo_vault" "[]"] h u
  show ?thesis by (simp add: demo_agent_def)
qed

text \<open>
  Claim C3. For every domain, every flat mapping of strings to strings and every expiry
  strictly after the time of the store, the store succeeds, and a fetch of the same
  domain under the same key at any time before the expiry returns exactly that mapping.
\<close>

theorem store_then_fetch_returns_mapping:
  "now < t \<Longrightarrow> now' < t \<Longrightarrow>
     \<exists>st'. sm_store h d (py_of_cookies m) t now n st = Inr st'
           \<and> sm_fetch h d now' st' = Inr (py_of_cookies m)
           \<and> (\<forall>m'. sm_fetch h d now' st' = Inr (py_of_cookies m') \<longrightarrow> m' = m)"
  by (auto simp: sm_store_def sm_fetch_after_put dest: py_of_cookies_inj)

theorem store_then_fetch_returns_mapping_witness:
  "(100::int) < 1000 \<and> (500::int) < 1000
   \<and> (\<exists>st'. sm_store demo_key ''GitHub.com'' (py_of_cookies demo_cookies) 1000 100 8
               (vs_store empty_vault) = Inr st'
             \<and> sm_fetch demo_key ''GitHub.com'' 500 st'
                 = Inr (PDict [(''session_id'', PStr ''abc123'')]))"
  using store_then_fetch_returns_mapping
          [of 100 1000 500 demo_key "''GitHub.com''" demo_cookies 8 "vs_store empty_vault"]
  by (auto simp: py_of_cookies_def demo_cookies_def)

text \<open>
  Claim C4. \<open>store\<close> rejects every expiry that is not strictly after the creation time,
  the creation time itself included, and accepts every later one. A fetch of a stored
  session at or after its expiry fails with SessionExpired; more generally a fetch never
  returns the cookies of a record whose expiry is at or before the read time, and fails
  with SessionExpired whenever the payload of such a record opens under the key.
\<close>

theorem expiry_is_enforced:
  "(t \<le> now \<longrightarrow> sm_store h d m t now n st = Inl InvalidExpiry)
   \<and> (now < t \<longrightarrow> (\<exists>st'. sm_store h d m t now n st = Inr st'))
   \<and> (sm_store h d m t now n st = Inr st' \<and> t \<le> now'
        \<longrightarrow> sm_fetch h d now' st' = Inl SessionExpired)
   \<and> (map_of (records st) (normalize_domain d) = Some r \<and> expires_at r \<le> now'
        \<longrightarrow> (\<forall>c. sm_fetch h d now' st \<noteq> Inr c))
   \<and> (map_of (records st) (normalize_domain d) = Some r \<and> expires_at r \<le> now'
        \<and> open_blob h (ciphertext r) \<noteq> None
        \<longrightarrow> sm_fetch h d now' st = Inl SessionExpired)"
  by (auto simp: sm_store_def sm_fetch_def es_get_def es_put_def map_of_upsert open_blob_def
           split: if_splits option.splits sum.splits)

theorem expiry_is_enforced_witness:
  "(100::int) \<le> 100
   \<and> sm_store demo_key ''github.com'' (py_of_cookies demo_cookies) 100 100 8
        (vs_store empty_vault) = Inl InvalidExpiry
   \<and> sm_store demo_key ''github.com'' (py_of_cookies demo_cookies) 101 100 8
        (vs_store empty_vault)
       = Inr (es_put demo_key ''github.com'' (py_of_cookies demo_cookies) 8 100 101
                (vs_store empty_vault))
   \<and> sm_fetch demo_key ''github.com'' 100
        (es_put demo_key ''github.com'' (py_of_cookies demo_cookies) 8 100 101
           (vs_store empty_vault))
       = Inr (py_of_cookies demo_cookies)
   \<and> (101::int) \<le> 101
   \<and> sm_fetch demo_key ''github.com'' 101
        (es_put demo_key ''github.com'' (py_of_cookies demo_cookies) 8 100 101
           (vs_store empty_vault))
       = Inl SessionExpired"
  using expiry_is_enforced
          [where t = 100 and now = 100 and h = demo_key and d = "''github.com''"
             and m = "py_of_cookies demo_cookies" and n = 8 and st = "vs_store empty_vault"]
        expiry_is_enforced
          [where t = 101 and now = 100 and h = demo_key and d = "''github.com''"
             and m = "py_of_cookies demo_cookies" and n = 8 and st = "vs_store empty_vault"
             and st' = "es_put demo_key ''github.com'' (py_of_cookies demo_cookies) 8 100 101
                          (vs_store empty_vault)"
             and now' = 101]
  by (simp add: sm_store_def sm_fetch_after_put sm_fetch_after_put_expired)

end
